theory Spec2Isabelle
  imports Main "HOL-Library.Sublist"
begin

section \<open>Data model\<close>

text \<open>
  The backend is \<open>modal_server.py\<close>. A conversation is a Python list of dicts
  \<open>{"role": ..., "content": ...}\<close> (\<open>List[Dict]\<close>); both values are Python \<open>str\<close>.
  A \<open>str\<close> is modelled as a HOL \<open>string\<close>, one \<open>char\<close> per code point, so \<open>take n\<close> is
  the slice \<open>[:n]\<close>. The role is an open string, as in the code.
\<close>

record message =
  role :: string
  content :: string

text \<open>
  JSON values, as far as their structure matters: the spreadsheet metadata is a dict of such
  values and the result of a request is one too.
\<close>

datatype json =
    JNull
  | JBool bool
  | JNum int
  | JStr string
  | JArr "json list"
  | JObj "(string \<times> json) list"

type_synonym pydict = "(string \<times> json) list"

text \<open>
  Exceptions are values; each one carries the text that \<open>str(e)\<close> gives for it.
\<close>

datatype exn =
    OSError string
  | JSONDecodeError string
  | CalledProcessError string
  | TimeoutExpired string
  | VolumeError string
  | AttributeError string

fun str_exn :: "exn \<Rightarrow> string" where
  "str_exn (OSError s) = s"
| "str_exn (JSONDecodeError s) = s"
| "str_exn (CalledProcessError s) = s"
| "str_exn (TimeoutExpired s) = s"
| "str_exn (VolumeError s) = s"
| "str_exn (AttributeError s) = s"

text \<open>
  A session file is represented by what \<open>json.loads(session_file.read_text())\<close> makes of it:
  reading it raises, decoding it raises, or it decodes: to a list of turns (what
  \<open>json.dumps(messages, indent=2)\<close> wrote), or to a JSON value that is not a list. The
  elements of a stored list are taken to be turns, dicts with a \<open>role\<close> and a \<open>content\<close>
  that are strings, as the program writes them.
\<close>

datatype nonlist =
    NNull
  | NBool bool
  | NNum int
  | NStr string
  | NObj "(string \<times> json) list"

datatype decoded =
    Turns "message list"
  | Value nonlist

datatype stored =
    Unreadable string
  | Garbled string
  | Decodes decoded

text \<open>The outcome of \<open>subprocess.run(command, check=True, timeout=300)\<close>.\<close>

datatype proc =
    Completed string
  | Raised exn

text \<open>
  The world outside the process: the session volume (\<open>/root/sessions\<close>), the model cache, the
  \<open>llama-cli\<close> binary, and the faults the operating system may answer with. \<open>calls\<close> records
  every command handed to \<open>subprocess.run\<close>, \<open>commits\<close> counts \<open>session_volume.commit()\<close>.

  \<open>stat_fault w f\<close> is the error, other than "not found", that \<open>stat\<close> answers for the
  file name \<open>f\<close> in the session directory (a name too long, a directory that may not be
  searched). \<open>write_fault\<close> is the error of a write that is refused when the file is opened,
  \<open>flush_fault\<close> the error of one that fails after the file was opened, hence truncated
  (no space left, a file too large).
\<close>

record world =
  session_dir_exists :: bool
  session_files :: "string \<rightharpoonup> stored"
  stat_fault :: "string \<Rightarrow> exn option"
  mkdir_fault :: "exn option"
  write_fault :: "exn option"
  flush_fault :: "exn option"
  commit_fault :: "exn option"
  model_cache :: "string \<rightharpoonup> string list"
  llama_cli :: "string list \<Rightarrow> proc"
  calls :: "string list list"
  commits :: nat

abbreviation NL :: string where
  "NL \<equiv> [CHR 0x0A]"

text \<open>
  The bullet of the summary line is the code point U+2022; it is one character of the Python
  string and is kept as one \<open>char\<close> here.
\<close>

definition bullet :: string where
  "bullet = [CHR 0x95]"

section \<open>File operations of \<open>pathlib\<close>\<close>

definition session_file :: "string \<Rightarrow> string" where
  "session_file session_id = session_id @ ''.json''"

text \<open>\<open>session_dir.mkdir(parents=True, exist_ok=True)\<close>\<close>

definition mkdir :: "world \<Rightarrow> exn + world" where
  "mkdir w =
     (if session_dir_exists w then Inr w
      else (case mkdir_fault w of
              Some e \<Rightarrow> Inl e
            | None \<Rightarrow> Inr (w\<lparr>session_dir_exists := True\<rparr>)))"

text \<open>
  \<open>session_file.exists()\<close>: \<open>Path.exists\<close> answers \<open>False\<close> for a file that is not
  there and raises every other \<open>OSError\<close> of \<open>stat\<close>.
\<close>

definition path_exists :: "world \<Rightarrow> string \<Rightarrow> exn + bool" where
  "path_exists w f =
     (case stat_fault w f of
        Some e \<Rightarrow> Inl e
      | None \<Rightarrow> Inr (session_files w f \<noteq> None))"

text \<open>
  \<open>session_file.write_text(...)\<close> opens the file for writing, which empties it, and then
  writes the text. A write that is refused at the opening leaves the file as it was; one that
  fails later leaves the beginning of the text, which does not decode.
\<close>

definition write_text :: "world \<Rightarrow> string \<Rightarrow> stored \<Rightarrow> world \<times> exn option" where
  "write_text w f v =
     (if \<not> session_dir_exists w then (w, Some (OSError ''No such file or directory''))
      else (case write_fault w of
              Some e \<Rightarrow> (w, Some e)
            | None \<Rightarrow>
                (case flush_fault w of
                   Some e \<Rightarrow>
                     (w\<lparr>session_files := (session_files w)(f \<mapsto> Garbled ''truncated'')\<rparr>, Some e)
                 | None \<Rightarrow> (w\<lparr>session_files := (session_files w)(f \<mapsto> v)\<rparr>, None))))"

text \<open>\<open>json.loads(session_file.read_text())\<close>\<close>

definition read_json :: "world \<Rightarrow> string \<Rightarrow> exn + decoded" where
  "read_json w f =
     (case session_files w f of
        None \<Rightarrow> Inl (OSError ''No such file or directory'')
      | Some (Unreadable s) \<Rightarrow> Inl (OSError s)
      | Some (Garbled s) \<Rightarrow> Inl (JSONDecodeError s)
      | Some (Decodes d) \<Rightarrow> Inr d)"

section \<open>CodingContextManager\<close>

text \<open>
  \<open>load_session\<close>: the test \<open>session_file.exists()\<close> is outside the \<open>try\<close>, the reading
  and decoding inside; the bare \<open>except\<close> returns the empty list. What was decoded is
  returned as it is, a list or not.
\<close>

definition load_session :: "world \<Rightarrow> string \<Rightarrow> exn + decoded" where
  "load_session w session_id =
     (case path_exists w (session_file session_id) of
        Inl e \<Rightarrow> Inl e
      | Inr False \<Rightarrow> Inr (Turns [])
      | Inr True \<Rightarrow>
          (case read_json w (session_file session_id) of
             Inr d \<Rightarrow> Inr d
           | Inl e \<Rightarrow> Inr (Turns [])))"

text \<open>
  The \<open>try\<close> block of \<open>save_session\<close> is the \<open>mkdir\<close> followed by the \<open>write_text\<close>; the
  handler \<open>except Exception as e: print(...)\<close> only prints. What \<open>print\<close> writes is not
  modelled.
\<close>

definition save_session :: "world \<Rightarrow> string \<Rightarrow> message list \<Rightarrow> exn + world" where
  "save_session w session_id messages =
     (case mkdir w of
        Inl e \<Rightarrow> Inr w
      | Inr w1 \<Rightarrow>
          (case write_text w1 (session_file session_id) (Decodes (Turns messages)) of
             (w2, Some e) \<Rightarrow> Inr w2
           | (w2, None) \<Rightarrow> Inr w2))"

definition system_prompt_head :: string where
  "system_prompt_head =
     ''You are an expert coding assistant specialized in Excel/Google Sheets automation and programming tasks.'' @ NL @
     NL @
     ''Current spreadsheet context:'' @ NL"

definition system_prompt_tail :: string where
  "system_prompt_tail =
     NL @
     NL @
     ''Your expertise includes:'' @ NL @
     ''- Excel formula generation (VLOOKUP, INDEX/MATCH, SUMIF, PIVOT, etc.)'' @ NL @
     ''- VBA/Visual Basic programming'' @ NL @
     ''- Google Apps Script'' @ NL @
     ''- Data analysis and manipulation'' @ NL @
     ''- Financial and investment banking calculations'' @ NL @
     ''- JavaScript for web automation'' @ NL @
     NL @
     ''Always provide:'' @ NL @
     ''1. Clear, working code solutions'' @ NL @
     ''2. Step-by-step explanations'' @ NL @
     ''3. Specific cell references and ranges'' @ NL @
     ''4. Copy-paste ready formulas'' @ NL @
     ''5. Error handling considerations'' @ NL @
     NL @
     ''Focus on practical, production-ready solutions that integrate seamlessly with spreadsheet environments.''"

text \<open>
  \<open>json.dumps(metadata, indent=2) if metadata else marker\<close>: \<open>None\<close> and the empty dict
  are both false. \<open>dumps\<close> stands for \<open>json.dumps(\<cdot>, indent=2)\<close> of the Python library.
\<close>

definition dumps_or :: "(pydict \<Rightarrow> string) \<Rightarrow> pydict option \<Rightarrow> string \<Rightarrow> string" where
  "dumps_or dumps metadata marker =
     (case metadata of
        None \<Rightarrow> marker
      | Some d \<Rightarrow> (if d = [] then marker else dumps d))"

definition create_coding_system_prompt :: "(pydict \<Rightarrow> string) \<Rightarrow> pydict option \<Rightarrow> string" where
  "create_coding_system_prompt dumps metadata =
     system_prompt_head @
     dumps_or dumps metadata ''No spreadsheet data available'' @
     system_prompt_tail"

text \<open>
  Modelled from the spec: the condition of the \<open>if\<close> that classifies an assistant turn is cut
  off in the source after its opening quote and three backquotes. The spec says the code
  solution is "detected by presence of a fenced-code marker in the content".
\<close>

definition has_code_fence :: "string \<Rightarrow> bool" where
  "has_code_fence c = sublist ''```'' c"

definition summary_line :: "message \<Rightarrow> string" where
  "summary_line msg =
     (if role msg = ''user'' then
        bullet @ '' User asked: '' @ take 150 (content msg) @ ''...'' @ NL
      else if role msg = ''assistant'' then
        (if has_code_fence (content msg) then
           ''-  Assistant provided code solution'' @ NL
         else
           ''-  Assistant explained: '' @ take 100 (content msg) @ ''...'' @ NL)
      else [])"

definition summary_text :: "message list \<Rightarrow> string" where
  "summary_text middle_msgs =
     ''Previous coding conversation summary:'' @ NL @
     concat (map summary_line (drop (length middle_msgs - 12) middle_msgs))"

definition system_msgs :: "message list \<Rightarrow> message list" where
  "system_msgs messages = filter (\<lambda>m. role m = ''system'') messages"

definition recent_msgs :: "message list \<Rightarrow> message list" where
  "recent_msgs messages = drop (length messages - 8) messages"

definition middle_msgs :: "message list \<Rightarrow> message list" where
  "middle_msgs messages =
     drop (length (system_msgs messages)) (take (length messages - 8) messages)"

definition summarize_coding_context ::
  "(pydict \<Rightarrow> string) \<Rightarrow> message list \<Rightarrow> pydict option \<Rightarrow> message list" where
  "summarize_coding_context dumps messages metadata =
     (if length messages \<le> 15 then messages
      else
        (let summary = summary_text (middle_msgs messages);
             updated_system = create_coding_system_prompt dumps metadata;
             summary_msg = \<lparr>role = ''system'', content = updated_system @ NL @ NL @ summary\<rparr>
         in summary_msg # recent_msgs messages))"

definition with_system_prompt ::
  "(pydict \<Rightarrow> string) \<Rightarrow> message list \<Rightarrow> pydict option \<Rightarrow> message list" where
  "with_system_prompt dumps messages metadata =
     (if messages = [] then
        [\<lparr>role = ''system'', content = create_coding_system_prompt dumps metadata\<rparr>]
      else messages)"

definition appended ::
  "(pydict \<Rightarrow> string) \<Rightarrow> message list \<Rightarrow> string \<Rightarrow> string \<Rightarrow> pydict option \<Rightarrow> message list" where
  "appended dumps loaded r c metadata =
     with_system_prompt dumps loaded metadata @ [\<lparr>role = r, content = c\<rparr>]"

text \<open>
  The name Python gives the type of a value that is not a list; such a value has no
  \<open>append\<close>, and the first \<open>messages.append\<close> raises for it.
\<close>

fun type_name :: "nonlist \<Rightarrow> string" where
  "type_name NNull = ''NoneType''"
| "type_name (NBool b) = ''bool''"
| "type_name (NNum n) = ''int''"
| "type_name (NStr s) = ''str''"
| "type_name (NObj d) = ''dict''"

definition no_append :: "nonlist \<Rightarrow> exn" where
  "no_append v =
     AttributeError ([CHR 0x27] @ type_name v @ [CHR 0x27] @ '' object has no attribute ''
                     @ [CHR 0x27] @ ''append'' @ [CHR 0x27])"

definition add_message ::
  "(pydict \<Rightarrow> string) \<Rightarrow> world \<Rightarrow> string \<Rightarrow> string \<Rightarrow> string \<Rightarrow> pydict option
     \<Rightarrow> exn + (world \<times> message list)" where
  "add_message dumps w session_id r c metadata =
     (case load_session w session_id of
        Inl e \<Rightarrow> Inl e
      | Inr (Value v) \<Rightarrow> Inl (no_append v)
      | Inr (Turns loaded) \<Rightarrow>
          (let messages = appended dumps loaded r c metadata;
               messages = (if length messages > 25
                           then summarize_coding_context dumps messages metadata
                           else messages)
           in (case save_session w session_id messages of
                 Inl e \<Rightarrow> Inl e
               | Inr w' \<Rightarrow> Inr (w', messages))))"

section \<open>String operations of Python used by the inference function\<close>

text \<open>\<open>str.strip()\<close> removes the white space of Python at both ends.\<close>

definition is_space :: "char \<Rightarrow> bool" where
  "is_space c \<longleftrightarrow>
     c \<in> set [CHR 0x09, CHR 0x0A, CHR 0x0B, CHR 0x0C, CHR 0x0D, CHR 0x1C, CHR 0x1D,
               CHR 0x1E, CHR 0x1F, CHR 0x20, CHR 0x85, CHR 0xA0]"

definition str_strip :: "string \<Rightarrow> string" where
  "str_strip s = rev (dropWhile is_space (rev (dropWhile is_space s)))"

text \<open>
  \<open>s.split(sep)\<close> scans from the left and cuts at every occurrence of \<open>sep\<close> that does not
  overlap the one before; the result is never empty. (Python raises on an empty separator;
  both separators of the program are literals.)
\<close>

fun split_from :: "string \<Rightarrow> string \<Rightarrow> string \<Rightarrow> string list" where
  "split_from sep acc [] = [acc]"
| "split_from sep acc (c # cs) =
     (if sep \<noteq> [] \<and> prefix sep (c # cs)
      then acc # split_from sep [] (drop (length sep - 1) cs)
      else split_from sep (acc @ [c]) cs)"

definition str_split :: "string \<Rightarrow> string \<Rightarrow> string list" where
  "str_split s sep = split_from sep [] s"

fun str_join :: "string \<Rightarrow> string list \<Rightarrow> string" where
  "str_join sep [] = []"
| "str_join sep [x] = x"
| "str_join sep (x # y # ys) = x @ sep @ str_join sep (y # ys)"

text \<open>
  \<open>str.title()\<close>: a cased character that follows an uncased one is put in upper case, one
  that follows a cased one in lower case. The letters with case are taken to be those of ASCII.
\<close>

definition is_lower :: "char \<Rightarrow> bool" where
  "is_lower c \<longleftrightarrow> (97::nat) \<le> of_char c \<and> of_char c \<le> (122::nat)"

definition is_upper :: "char \<Rightarrow> bool" where
  "is_upper c \<longleftrightarrow> (65::nat) \<le> of_char c \<and> of_char c \<le> (90::nat)"

definition to_upper :: "char \<Rightarrow> char" where
  "to_upper c = char_of (of_char c - (32::nat))"

definition to_lower :: "char \<Rightarrow> char" where
  "to_lower c = char_of (of_char c + (32::nat))"

fun title_from :: "bool \<Rightarrow> string \<Rightarrow> string" where
  "title_from previous_is_cased [] = []"
| "title_from previous_is_cased (c # cs) =
     (if is_lower c then
        (if previous_is_cased then c else to_upper c) # title_from True cs
      else if is_upper c then
        (if previous_is_cased then to_lower c else c) # title_from True cs
      else c # title_from False cs)"

definition str_title :: "string \<Rightarrow> string" where
  "str_title s = title_from False s"

section \<open>coding\_llm\_inference\<close>

definition session_dir :: string where
  "session_dir = ''/root/sessions''"

definition cache_dir :: string where
  "cache_dir = ''/root/.cache/models''"

definition solution_request :: string where
  "solution_request =
     NL @
     NL @
     ''Please provide a practical solution with:'' @ NL @
     ''1. Working code/formulas'' @ NL @
     ''2. Clear explanations'' @ NL @
     ''3. Integration steps for Google Sheets/Excel'' @ NL @
     ''4. Specific cell references where applicable'' @ NL"

definition coding_prompt :: "(pydict \<Rightarrow> string) \<Rightarrow> pydict option \<Rightarrow> string \<Rightarrow> string" where
  "coding_prompt dumps metadata prompt =
     NL @
     ''Spreadsheet Context: '' @ dumps_or dumps metadata ''No spreadsheet loaded'' @ NL @
     NL @
     ''User Request: '' @ prompt @
     solution_request"

definition context_text :: "message list \<Rightarrow> string" where
  "context_text messages =
     str_join NL (map (\<lambda>msg. str_title (role msg) @ '': '' @ content msg) messages) @
     NL @ ''Assistant:''"

definition model_paths :: "(string \<times> string) list" where
  "model_paths =
     [(''qwen-2.5-coder-14b'', ''qwen-2.5-coder-14b''),
      (''deepseek-coder-v2'', ''deepseek-coder-v2-lite''),
      (''phi-3.5-mini'', ''phi-3.5-mini'')]"

text \<open>\<open>model_paths.get(model_choice, "phi-3.5-mini")\<close>\<close>

definition model_dir :: "string \<Rightarrow> string" where
  "model_dir model_choice =
     (case map_of model_paths model_choice of
        Some d \<Rightarrow> d
      | None \<Rightarrow> ''phi-3.5-mini'')"

definition model_path :: "string \<Rightarrow> string" where
  "model_path model_choice = cache_dir @ ''/'' @ model_dir model_choice"

text \<open>
  \<open>model_cache w p\<close> is the listing of the directory \<open>p\<close>, or \<open>None\<close> when
  \<open>os.path.exists(p)\<close> is false. \<open>glob("*.gguf")\<close> keeps the names that end in \<open>.gguf\<close>.
\<close>

definition model_files :: "world \<Rightarrow> string \<Rightarrow> string list" where
  "model_files w model_choice =
     (case model_cache w (model_path model_choice) of
        None \<Rightarrow> []
      | Some names \<Rightarrow>
          map (\<lambda>n. model_path model_choice @ ''/'' @ n) (filter (suffix ''.gguf'') names))"

text \<open>\<open>str(model_files)\<close>: the printed form of the list of paths, as the source has it.\<close>

definition str_paths :: "string list \<Rightarrow> string" where
  "str_paths ps =
     ''['' @ str_join '', '' (map (\<lambda>p. ''PosixPath('' @ [CHR 0x27] @ p @ [CHR 0x27] @ '')'') ps) @ '']''"

definition command :: "string \<Rightarrow> string \<Rightarrow> string list" where
  "command model_file ctx =
     [''/llama.cpp/llama-cli'',
      ''--model'', model_file,
      ''--n-gpu-layers'', ''40'',
      ''--prompt'', ctx,
      ''--n-predict'', ''1024'',
      ''--ctx-size'', ''8192'',
      ''--temp'', ''0.2'',
      ''--top-p'', ''0.9'',
      ''--repeat-penalty'', ''1.1'',
      ''--stop'', ''User:'',
      ''--stop'', ''Human:'']"

definition clean_response :: "string \<Rightarrow> string" where
  "clean_response stdout =
     (let response = str_strip stdout;
          response = (if sublist ''Assistant:'' response
                      then str_strip (last (str_split response ''Assistant:''))
                      else response);
          lines = str_split response NL;
          cleaned_lines =
            filter (\<lambda>line. \<not> (prefix ''User:'' line \<or> prefix ''Human:'' line
                                 \<or> prefix ''Assistant:'' line)) lines
      in str_strip (str_join NL cleaned_lines))"

definition json_of_metadata :: "pydict option \<Rightarrow> json" where
  "json_of_metadata metadata = (case metadata of None \<Rightarrow> JNull | Some d \<Rightarrow> JObj d)"

definition model_missing_result :: "string \<Rightarrow> string \<Rightarrow> pydict" where
  "model_missing_result session_id model_choice =
     [(''session_id'', JStr session_id),
      (''response'', JStr (''Model '' @ model_choice @ '' not found. Please run setup_coding_models first.'')),
      (''error'', JStr ''Model not available'')]"

definition success_result :: "string \<Rightarrow> string \<Rightarrow> string \<Rightarrow> pydict option \<Rightarrow> pydict" where
  "success_result session_id response model_choice metadata =
     [(''session_id'', JStr session_id),
      (''response'', JStr response),
      (''model_used'', JStr model_choice),
      (''metadata'', json_of_metadata metadata)]"

text \<open>
  The two handlers of the \<open>try\<close>: \<open>except subprocess.CalledProcessError\<close> first, then
  \<open>except Exception\<close> for everything else (a timeout included).
\<close>

fun except_result :: "string \<Rightarrow> string \<Rightarrow> exn \<Rightarrow> pydict" where
  "except_result session_id model_choice (CalledProcessError s) =
     [(''session_id'', JStr session_id),
      (''response'', JStr ''I encountered an error processing your coding request. Please try again with a simpler query.''),
      (''error'', JStr (str_exn (CalledProcessError s))),
      (''model_used'', JStr model_choice)]"
| "except_result session_id model_choice e =
     [(''session_id'', JStr session_id),
      (''response'', JStr ''An unexpected error occurred. Please try again.''),
      (''error'', JStr (str_exn e))]"

text \<open>\<open>subprocess.run\<close>: the command is handed to the binary and its outcome comes back.\<close>

definition run :: "world \<Rightarrow> string list \<Rightarrow> world \<times> proc" where
  "run w cmd = (w\<lparr>calls := calls w @ [cmd]\<rparr>, llama_cli w cmd)"

definition commit :: "world \<Rightarrow> exn + world" where
  "commit w =
     (case commit_fault w of
        Some e \<Rightarrow> Inl e
      | None \<Rightarrow> Inr (w\<lparr>commits := Suc (commits w)\<rparr>))"

definition coding_llm_inference ::
  "(pydict \<Rightarrow> string) \<Rightarrow> world \<Rightarrow> string \<Rightarrow> string \<Rightarrow> pydict option \<Rightarrow> string
     \<Rightarrow> exn + (world \<times> pydict)" where
  "coding_llm_inference dumps w session_id prompt metadata model_choice =
     (case add_message dumps w session_id ''user'' (coding_prompt dumps metadata prompt) metadata of
        Inl e \<Rightarrow> Inl e
      | Inr (w1, messages) \<Rightarrow>
          (if model_files w1 model_choice = [] then
             Inr (w1, model_missing_result session_id model_choice)
           else
             (case run w1 (command (str_paths (model_files w1 model_choice)) (context_text messages)) of
                (w2, Raised e) \<Rightarrow> Inr (w2, except_result session_id model_choice e)
              | (w2, Completed stdout) \<Rightarrow>
                  (let response = clean_response stdout in
                   (case add_message dumps w2 session_id ''assistant'' response metadata of
                      Inl e \<Rightarrow> Inr (w2, except_result session_id model_choice e)
                    | Inr (w3, ms) \<Rightarrow>
                        (case commit w3 of
                           Inl e \<Rightarrow> Inr (w3, except_result session_id model_choice e)
                         | Inr w4 \<Rightarrow>
                             Inr (w4, success_result session_id response model_choice metadata)))))))"

section \<open>coding\_query\_endpoint\<close>

text \<open>
  \<open>uuid\<close> is the value \<open>str(uuid.uuid4())\<close> would give. \<open>not session_id\<close> holds for
  \<open>None\<close> and for the empty string, \<open>metadata or {}\<close> turns \<open>None\<close> into the empty dict.
\<close>

definition or_uuid :: "string \<Rightarrow> string option \<Rightarrow> string" where
  "or_uuid uuid session_id =
     (case session_id of None \<Rightarrow> uuid | Some s \<Rightarrow> (if s = [] then uuid else s))"

definition or_empty :: "pydict option \<Rightarrow> pydict" where
  "or_empty metadata = (case metadata of None \<Rightarrow> [] | Some d \<Rightarrow> d)"

definition coding_query_endpoint ::
  "(pydict \<Rightarrow> string) \<Rightarrow> string \<Rightarrow> world \<Rightarrow> string option \<Rightarrow> string \<Rightarrow> pydict option \<Rightarrow> string
     \<Rightarrow> exn + (world \<times> pydict)" where
  "coding_query_endpoint dumps uuid w session_id prompt metadata model =
     (if prompt = [] then Inr (w, [(''error'', JStr ''No prompt provided'')])
      else coding_llm_inference dumps w (or_uuid uuid session_id) prompt
             (Some (or_empty metadata)) model)"

section \<open>Sequences of requests, and worlds to run the code on\<close>

text \<open>
  The persist step goes through when the session directory is there or can be made, and the
  write is neither refused nor cut short.
\<close>

definition writable :: "world \<Rightarrow> bool" where
  "writable w \<longleftrightarrow>
     (session_dir_exists w \<or> mkdir_fault w = None) \<and> write_fault w = None \<and> flush_fault w = None"

text \<open>
  A session is loadable when \<open>load_session\<close> returns a list of turns for it: \<open>stat\<close> does
  not fail for its file, and the file, if it decodes, holds a list. \<open>history\<close> is that list.
\<close>

definition loadable :: "world \<Rightarrow> string \<Rightarrow> bool" where
  "loadable w session_id =
     (case load_session w session_id of
        Inr (Turns ms) \<Rightarrow> True
      | Inr (Value v) \<Rightarrow> False
      | Inl e \<Rightarrow> False)"

definition history :: "world \<Rightarrow> string \<Rightarrow> message list" where
  "history w session_id =
     (case load_session w session_id of
        Inr (Turns ms) \<Rightarrow> ms
      | Inr (Value v) \<Rightarrow> []
      | Inl e \<Rightarrow> [])"

text \<open>What \<open>add_message\<close> hands to \<open>save_session\<close> and returns, given the turns it loaded.\<close>

definition stepped ::
  "(pydict \<Rightarrow> string) \<Rightarrow> message list \<Rightarrow> string \<Rightarrow> string \<Rightarrow> pydict option \<Rightarrow> message list" where
  "stepped dumps loaded r c metadata =
     (if length (appended dumps loaded r c metadata) > 25
      then summarize_coding_context dumps (appended dumps loaded r c metadata) metadata
      else appended dumps loaded r c metadata)"

text \<open>The middle turns that the summary is made of: the last 12 of them.\<close>

definition summarized :: "message list \<Rightarrow> message list" where
  "summarized messages = drop (length (middle_msgs messages) - 12) (middle_msgs messages)"

text \<open>Exactly one system turn, and it is the first.\<close>

definition one_system_first :: "message list \<Rightarrow> bool" where
  "one_system_first ms \<longleftrightarrow>
     (case ms of
        [] \<Rightarrow> False
      | s # rest \<Rightarrow> role s = ''system'' \<and> system_msgs rest = [])"

text \<open>One call of \<open>add_message\<close> after the other on one session, each with its own arguments.\<close>

fun add_messages ::
  "(pydict \<Rightarrow> string) \<Rightarrow> world \<Rightarrow> string \<Rightarrow> (string \<times> string \<times> pydict option) list
     \<Rightarrow> exn + world" where
  "add_messages dumps w session_id [] = Inr w"
| "add_messages dumps w session_id ((r, c, metadata) # rest) =
     (case add_message dumps w session_id r c metadata of
        Inl e \<Rightarrow> Inl e
      | Inr (w', messages) \<Rightarrow> add_messages dumps w' session_id rest)"


text \<open>
  An empty volume on a file system whose names have at most 255 characters, no model
  downloaded, a binary that times out; and variations of it: a volume that refuses every
  write, one that has no space left, a downloaded model, sessions of 25 stored turns.
\<close>

definition name_too_long :: "string \<Rightarrow> exn option" where
  "name_too_long f = (if length f > 255 then Some (OSError ''File name too long'') else None)"

definition fresh_world :: world where
  "fresh_world =
     \<lparr>session_dir_exists = False,
      session_files = Map.empty,
      stat_fault = name_too_long,
      mkdir_fault = None,
      write_fault = None,
      flush_fault = None,
      commit_fault = None,
      model_cache = Map.empty,
      llama_cli = (\<lambda>cmd. Raised (TimeoutExpired ''timed out after 300 seconds'')),
      calls = [],
      commits = 0\<rparr>"

definition readonly_world :: world where
  "readonly_world =
     fresh_world\<lparr>session_dir_exists := True,
                 write_fault := Some (OSError ''Read-only file system'')\<rparr>"

definition phi_world :: world where
  "phi_world =
     fresh_world\<lparr>model_cache := [''/root/.cache/models/phi-3.5-mini'' \<mapsto> [''phi.Q4_K_M.gguf'']]\<rparr>"

definition old_turns :: "message list" where
  "old_turns =
     \<lparr>role = ''system'', content = ''old prompt''\<rparr>
     # replicate 24 \<lparr>role = ''user'', content = ''q''\<rparr>"

definition long_world :: world where
  "long_world =
     fresh_world\<lparr>session_dir_exists := True,
                 session_files := [''s1.json'' \<mapsto> Decodes (Turns old_turns)]\<rparr>"

definition stale_world :: world where
  "stale_world = long_world\<lparr>write_fault := Some (OSError ''Read-only file system'')\<rparr>"

definition full_world :: world where
  "full_world = long_world\<lparr>flush_fault := Some (OSError ''No space left on device'')\<rparr>"

definition no_dumps :: "pydict \<Rightarrow> string" where
  "no_dumps d = ''{...}''"

text \<open>
  A stand-in for \<open>json.dumps\<close> that tells dicts apart by their keys, and a session whose
  system turn was made from the metadata \<open>{"rows": 3}\<close> and whose middle turns are of
  every kind.
\<close>

definition keys_dumps :: "pydict \<Rightarrow> string" where
  "keys_dumps d = ''{'' @ concat (map fst d) @ ''}''"

definition mixed_turns :: "message list" where
  "mixed_turns =
     \<lparr>role = ''system'', content = create_coding_system_prompt keys_dumps (Some [(''rows'', JNum 3)])\<rparr>
     # replicate 13 \<lparr>role = ''user'', content = ''early''\<rparr>
     @ [\<lparr>role = ''user'', content = ''sum A''\<rparr>,
        \<lparr>role = ''assistant'', content = ''```=SUM(A:A)```''\<rparr>,
        \<lparr>role = ''tool'', content = ''ignored''\<rparr>,
        \<lparr>role = ''assistant'', content = ''use SUM''\<rparr>]
     @ replicate 7 \<lparr>role = ''user'', content = ''late''\<rparr>"

definition mixed_world :: world where
  "mixed_world =
     fresh_world\<lparr>session_dir_exists := True,
                 session_files := [''s1.json'' \<mapsto> Decodes (Turns mixed_turns)]\<rparr>"


section \<open>What loading, saving and appending always do\<close>

lemma loadable_stat: "loadable w sid \<Longrightarrow> stat_fault w (session_file sid) = None"
  by (auto simp: loadable_def load_session_def path_exists_def split: option.splits)

lemma load_session_loadable: "loadable w sid \<Longrightarrow> load_session w sid = Inr (Turns (history w sid))"
  by (auto simp: loadable_def history_def split: sum.splits decoded.splits)

lemma loadable_history: "load_session w sid = Inr (Turns ms) \<Longrightarrow> loadable w sid \<and> history w sid = ms"
  by (simp add: loadable_def history_def)

lemma load_session_statable:
  assumes "stat_fault w (session_file sid) = None"
  shows "load_session w sid =
           (case session_files w (session_file sid) of
              Some (Decodes d) \<Rightarrow> Inr d
            | _ \<Rightarrow> Inr (Turns []))"
  using assms
  by (auto simp: load_session_def path_exists_def read_json_def split: option.splits stored.splits)

lemma save_session_writable:
  "writable w \<Longrightarrow> save_session w sid ms =
     Inr (w\<lparr>session_dir_exists := True,
            session_files := (session_files w)(session_file sid \<mapsto> Decodes (Turns ms))\<rparr>)"
  by (auto simp: save_session_def writable_def mkdir_def write_text_def split: sum.splits option.splits)

lemma save_session_Inr: "\<exists>w'. save_session w sid ms = Inr w'"
  by (auto simp: save_session_def split: sum.splits prod.splits option.splits)

lemma save_session_frame:
  "save_session w sid ms = Inr w' \<Longrightarrow>
     stat_fault w' = stat_fault w \<and> mkdir_fault w' = mkdir_fault w \<and> write_fault w' = write_fault w
     \<and> flush_fault w' = flush_fault w \<and> commit_fault w' = commit_fault w
     \<and> model_cache w' = model_cache w \<and> llama_cli w' = llama_cli w \<and> calls w' = calls w
     \<and> commits w' = commits w"
  by (auto simp: save_session_def mkdir_def write_text_def
      split: sum.splits option.splits if_splits prod.splits)

lemma load_after_write:
  "stat_fault w (session_file sid) = None \<Longrightarrow>
   load_session (w\<lparr>session_dir_exists := True,
                   session_files := (session_files w)(session_file sid \<mapsto> Decodes (Turns ms))\<rparr>) sid
     = Inr (Turns ms)"
  by (simp add: load_session_def path_exists_def read_json_def)

lemma add_message_stepped:
  "loadable w sid \<Longrightarrow>
   add_message dumps w sid r c md =
     (case save_session w sid (stepped dumps (history w sid) r c md) of
        Inl e \<Rightarrow> Inl e
      | Inr w' \<Rightarrow> Inr (w', stepped dumps (history w sid) r c md))"
  by (simp add: add_message_def load_session_loadable stepped_def Let_def split: sum.splits)

lemma add_message_writable:
  "loadable w sid \<Longrightarrow> writable w \<Longrightarrow> add_message dumps w sid r c md =
     Inr (w\<lparr>session_dir_exists := True,
            session_files := (session_files w)(session_file sid \<mapsto>
                                Decodes (Turns (stepped dumps (history w sid) r c md)))\<rparr>,
          stepped dumps (history w sid) r c md)"
  by (simp add: add_message_stepped save_session_writable)

lemma add_message_total:
  "loadable w sid \<Longrightarrow>
   \<exists>w'. add_message dumps w sid r c md = Inr (w', stepped dumps (history w sid) r c md)"
  using save_session_Inr [of w sid "stepped dumps (history w sid) r c md"]
  by (auto simp: add_message_stepped)

lemma add_message_returns:
  assumes "add_message dumps w sid r c md = Inr (w', ms)"
  shows "loadable w sid \<and> ms = stepped dumps (history w sid) r c md
         \<and> save_session w sid ms = Inr w'"
proof -
  from assms obtain loaded where l: "load_session w sid = Inr (Turns loaded)"
    by (auto simp: add_message_def split: sum.splits decoded.splits)
  then have lh: "loadable w sid" "history w sid = loaded" by (simp_all add: loadable_history)
  from assms show ?thesis using lh
    by (auto simp: add_message_stepped split: sum.splits)
qed

lemma add_message_frame:
  assumes "add_message dumps w sid r c md = Inr (w', ms)"
  shows "stat_fault w' = stat_fault w \<and> mkdir_fault w' = mkdir_fault w \<and> write_fault w' = write_fault w
     \<and> flush_fault w' = flush_fault w \<and> commit_fault w' = commit_fault w
     \<and> model_cache w' = model_cache w \<and> llama_cli w' = llama_cli w \<and> calls w' = calls w
     \<and> commits w' = commits w"
  using add_message_returns [OF assms] save_session_frame by blast

lemma summarize_long:
  "length ms > 15 \<Longrightarrow> summarize_coding_context dumps ms md =
     \<lparr>role = ''system'',
      content = create_coding_system_prompt dumps md @ NL @ NL @ summary_text (middle_msgs ms)\<rparr>
     # drop (length ms - 8) ms"
  by (simp add: summarize_coding_context_def Let_def recent_msgs_def)

lemma writable_after_write:
  "writable w \<Longrightarrow> writable (w\<lparr>session_dir_exists := True, session_files := F\<rparr>)"
  by (simp add: writable_def)

lemma loadable_after_write:
  "stat_fault w (session_file sid) = None \<Longrightarrow>
   loadable (w\<lparr>session_dir_exists := True,
               session_files := (session_files w)(session_file sid \<mapsto> Decodes (Turns ms))\<rparr>) sid
   \<and> history (w\<lparr>session_dir_exists := True,
               session_files := (session_files w)(session_file sid \<mapsto> Decodes (Turns ms))\<rparr>) sid = ms"
  using load_after_write [of w sid ms] by (simp add: loadable_history)


section \<open>Loading\<close>

lemma load_absent_or_malformed:
  assumes "stat_fault w (session_file sid) = None"
      and "session_files w (session_file sid) = None
           \<or> (\<exists>s. session_files w (session_file sid) = Some (Unreadable s))
           \<or> (\<exists>s. session_files w (session_file sid) = Some (Garbled s))"
  shows "load_session w sid = Inr (Turns [])"
  using assms(2) by (auto simp: load_session_statable [OF assms(1)])

text \<open>
  C7. \<open>load_session\<close> is to return the empty list for a session that has no stored value.
  For a session id of 300 characters, which has no file, it raises instead: the file name is
  too long for \<open>stat\<close>, and \<open>session_file.exists()\<close> is called outside the \<open>try\<close>.
\<close>

theorem load_session_long_name_raises:
  "session_files fresh_world (session_file (replicate 300 (CHR ''a''))) = None
   \<and> load_session fresh_world (replicate 300 (CHR ''a'')) = Inl (OSError ''File name too long'')"
  by (simp add: fresh_world_def load_session_def path_exists_def name_too_long_def session_file_def)

section \<open>Compaction\<close>

lemma long_world_load: "load_session long_world ''s1'' = Inr (Turns old_turns)"
  by (simp add: long_world_def fresh_world_def load_session_def path_exists_def read_json_def
      session_file_def name_too_long_def)

lemma long_world_writable: "writable long_world"
  by (simp add: long_world_def fresh_world_def writable_def)

lemma old_turns_stepped:
  "stepped dumps old_turns ''user'' ''hi'' md =
     \<lparr>role = ''system'',
      content = create_coding_system_prompt dumps md @ NL @ NL
                @ summary_text (replicate 17 \<lparr>role = ''user'', content = ''q''\<rparr>)\<rparr>
     # replicate 7 \<lparr>role = ''user'', content = ''q''\<rparr> @ [\<lparr>role = ''user'', content = ''hi''\<rparr>]"
  by (simp add: stepped_def appended_def with_system_prompt_def old_turns_def summarize_long
      middle_msgs_def system_msgs_def)

text \<open>
  C1, as stated, fails for the stored sequence: on a volume that refuses the write the call
  returns the 9 turns, and the session keeps its 25.
\<close>

theorem stale_store_counterexample:
  "add_message no_dumps stale_world ''s1'' ''user'' ''hi'' None =
     Inr (stale_world,
          \<lparr>role = ''system'',
           content = create_coding_system_prompt no_dumps None @ NL @ NL
                     @ summary_text (replicate 17 \<lparr>role = ''user'', content = ''q''\<rparr>)\<rparr>
          # replicate 7 \<lparr>role = ''user'', content = ''q''\<rparr> @ [\<lparr>role = ''user'', content = ''hi''\<rparr>])
   \<and> load_session stale_world ''s1'' = Inr (Turns old_turns)
   \<and> length old_turns = 25"
proof -
  have l: "load_session stale_world ''s1'' = Inr (Turns old_turns)"
    by (simp add: stale_world_def long_world_def fresh_world_def load_session_def path_exists_def
        read_json_def session_file_def name_too_long_def)
  have s: "save_session stale_world ''s1'' ms = Inr stale_world" for ms
    by (simp add: stale_world_def long_world_def fresh_world_def save_session_def mkdir_def
        write_text_def)
  have "add_message no_dumps stale_world ''s1'' ''user'' ''hi'' None =
      Inr (stale_world, stepped no_dumps old_turns ''user'' ''hi'' None)"
    using loadable_history [OF l] by (simp add: add_message_stepped s)
  then show ?thesis using l by (simp add: old_turns_stepped) (simp add: old_turns_def)
qed

text \<open>
  C1, amended. When the sequence that \<open>add_message\<close> has after appending the new turn (to the
  loaded turns, behind a fresh system turn if there were none) is longer than 25, the call
  returns exactly 9 turns: a new system turn followed by the last 8 turns of that sequence,
  unchanged and in their order, however long the sequence was. Where the volume takes the
  write, the same 9 turns are what the session then holds.
\<close>

theorem compaction_bound:
  assumes "load_session w sid = Inr (Turns loaded)"
      and "length (appended dumps loaded r c md) > 25"
  shows "\<exists>w' sys.
           add_message dumps w sid r c md =
             Inr (w', sys # drop (length (appended dumps loaded r c md) - 8) (appended dumps loaded r c md))
           \<and> role sys = ''system''
           \<and> length (sys # drop (length (appended dumps loaded r c md) - 8) (appended dumps loaded r c md)) = 9
           \<and> (writable w \<longrightarrow>
                load_session w' sid =
                  Inr (Turns (sys # drop (length (appended dumps loaded r c md) - 8)
                                     (appended dumps loaded r c md))))"
proof -
  let ?pre = "appended dumps loaded r c md"
  let ?sys = "\<lparr>role = ''system'',
      content = create_coding_system_prompt dumps md @ NL @ NL @ summary_text (middle_msgs ?pre)\<rparr>"
  have lh: "loadable w sid" "history w sid = loaded"
    using loadable_history [OF assms(1)] by simp_all
  have st: "stepped dumps loaded r c md = ?sys # drop (length ?pre - 8) ?pre"
    using assms(2) by (simp add: stepped_def summarize_long)
  have len: "length (?sys # drop (length ?pre - 8) ?pre) = 9"
    using assms(2) by simp
  obtain w' where w': "add_message dumps w sid r c md = Inr (w', ?sys # drop (length ?pre - 8) ?pre)"
    using add_message_total [OF lh(1), of dumps r c md] lh(2) st by auto
  have "writable w \<Longrightarrow> load_session w' sid = Inr (Turns (?sys # drop (length ?pre - 8) ?pre))"
  proof -
    assume "writable w"
    from add_message_writable [OF lh(1) this, of dumps r c md] w' lh(2) st
    have "w' = w\<lparr>session_dir_exists := True,
            session_files := (session_files w)(session_file sid \<mapsto>
               Decodes (Turns (?sys # drop (length ?pre - 8) ?pre)))\<rparr>"
      by simp
    then show ?thesis by (simp add: load_after_write loadable_stat [OF lh(1)])
  qed
  with w' len show ?thesis by (intro exI [of _ w'] exI [of _ ?sys]) simp
qed

theorem compaction_bound_witness:
  "\<exists>w' sys.
     add_message no_dumps long_world ''s1'' ''user'' ''hi'' None =
       Inr (w', sys # replicate 7 \<lparr>role = ''user'', content = ''q''\<rparr> @ [\<lparr>role = ''user'', content = ''hi''\<rparr>])
     \<and> role sys = ''system''
     \<and> load_session w' ''s1'' =
         Inr (Turns (sys # replicate 7 \<lparr>role = ''user'', content = ''q''\<rparr>
                         @ [\<lparr>role = ''user'', content = ''hi''\<rparr>]))"
  using compaction_bound [OF long_world_load, of no_dumps "''user''" "''hi''" None] long_world_writable
  by (simp add: appended_def with_system_prompt_def old_turns_def)


lemma summary_text_lines:
  "summary_text (middle_msgs ms) =
     ''Previous coding conversation summary:'' @ NL @
     concat (map summary_line
       (drop (length (drop (length (filter (\<lambda>m. role m = ''system'') ms)) (take (length ms - 8) ms)) - 12)
             (drop (length (filter (\<lambda>m. role m = ''system'') ms)) (take (length ms - 8) ms))))"
  by (simp only: summary_text_def middle_msgs_def system_msgs_def)

lemma system_prompt_parts:
  "create_coding_system_prompt dumps md =
     system_prompt_head
     @ (case md of
          None \<Rightarrow> ''No spreadsheet data available''
        | Some d \<Rightarrow> (if d = [] then ''No spreadsheet data available'' else dumps d))
     @ system_prompt_tail"
  by (simp only: create_coding_system_prompt_def dumps_or_def)

text \<open>
  C6. When an append to a session of 25 or more stored turns triggers the compaction, the
  system turn it returns is made of the metadata given with that append and of nothing else
  of the old system turn: the head of the system prompt, the JSON text of the new metadata
  (the marker when there is none), the tail of the prompt, an empty line, and the summary:
  one line, as \<open>summary_line\<close> gives it, for each of the last 12 of the middle turns (those
  after as many leading positions as there are system turns, and before the last 8).
\<close>

theorem metadata_refresh:
  assumes "load_session w sid = Inr (Turns loaded)"
      and "length loaded \<ge> 25"
  shows "\<exists>w' rest.
           add_message dumps w sid r c md =
             Inr (w',
                  \<lparr>role = ''system'',
                   content =
                     system_prompt_head
                     @ (case md of
                          None \<Rightarrow> ''No spreadsheet data available''
                        | Some d \<Rightarrow> (if d = [] then ''No spreadsheet data available'' else dumps d))
                     @ system_prompt_tail
                     @ NL @ NL
                     @ ''Previous coding conversation summary:'' @ NL
                     @ concat (map summary_line
                         (let pre = loaded @ [\<lparr>role = r, content = c\<rparr>];
                              middle = drop (length (filter (\<lambda>m. role m = ''system'') pre))
                                            (take (length pre - 8) pre)
                          in drop (length middle - 12) middle))\<rparr>
                  # rest)"
proof -
  have ne: "loaded \<noteq> []" using assms(2) by auto
  let ?pre = "loaded @ [\<lparr>role = r, content = c\<rparr>]"
  have app: "appended dumps loaded r c md = ?pre"
    using ne by (simp add: appended_def with_system_prompt_def)
  have lh: "loadable w sid" "history w sid = loaded"
    using loadable_history [OF assms(1)] by simp_all
  have "stepped dumps loaded r c md =
      \<lparr>role = ''system'',
       content = create_coding_system_prompt dumps md @ NL @ NL @ summary_text (middle_msgs ?pre)\<rparr>
      # drop (length ?pre - 8) ?pre"
    using assms(2) by (simp add: stepped_def app summarize_long)
  then have "stepped dumps loaded r c md =
      \<lparr>role = ''system'',
       content =
         (system_prompt_head
          @ (case md of
               None \<Rightarrow> ''No spreadsheet data available''
             | Some d \<Rightarrow> (if d = [] then ''No spreadsheet data available'' else dumps d))
          @ system_prompt_tail)
         @ NL @ NL
         @ (''Previous coding conversation summary:'' @ NL
            @ concat (map summary_line
                (let pre = ?pre;
                     middle = drop (length (filter (\<lambda>m. role m = ''system'') pre))
                                   (take (length pre - 8) pre)
                 in drop (length middle - 12) middle)))\<rparr>
      # drop (length ?pre - 8) ?pre"
    by (simp only: system_prompt_parts summary_text_lines Let_def)
  with add_message_total [OF lh(1), of dumps r c md] lh(2) show ?thesis by auto
qed

lemma mixed_world_load: "load_session mixed_world ''s1'' = Inr (Turns mixed_turns)"
  by (simp add: mixed_world_def fresh_world_def load_session_def path_exists_def read_json_def
      session_file_def name_too_long_def)

lemma summary_line_user:
  "summary_line \<lparr>role = ''user'', content = x\<rparr> = bullet @ '' User asked: '' @ take 150 x @ ''...'' @ NL"
  by (simp add: summary_line_def)

lemma fence_yes: "has_code_fence ''```=SUM(A:A)```''"
  by (simp add: has_code_fence_def sublist_code)

lemma fence_no: "\<not> has_code_fence ''use SUM''"
  by (simp add: has_code_fence_def sublist_code)

theorem metadata_refresh_witness:
  "\<exists>w'.
     add_message keys_dumps mixed_world ''s1'' ''user'' ''hi'' (Some [(''cols'', JNum 5)]) =
       Inr (w',
            \<lparr>role = ''system'',
             content =
               system_prompt_head @ ''{cols}'' @ system_prompt_tail
               @ NL @ NL
               @ ''Previous coding conversation summary:'' @ NL
               @ concat (replicate 8 (bullet @ '' User asked: early...'' @ NL))
               @ bullet @ '' User asked: sum A...'' @ NL
               @ ''-  Assistant provided code solution'' @ NL
               @ ''-  Assistant explained: use SUM...'' @ NL\<rparr>
            # replicate 7 \<lparr>role = ''user'', content = ''late''\<rparr>
            @ [\<lparr>role = ''user'', content = ''hi''\<rparr>])"
proof -
  have len: "25 \<le> length mixed_turns" by (simp add: mixed_turns_def)
  have st: "stepped keys_dumps mixed_turns ''user'' ''hi'' (Some [(''cols'', JNum 5)]) =
      \<lparr>role = ''system'',
       content = create_coding_system_prompt keys_dumps (Some [(''cols'', JNum 5)]) @ NL @ NL
          @ summary_text (middle_msgs (mixed_turns @ [\<lparr>role = ''user'', content = ''hi''\<rparr>]))\<rparr>
      # replicate 7 \<lparr>role = ''user'', content = ''late''\<rparr> @ [\<lparr>role = ''user'', content = ''hi''\<rparr>]"
    by (simp add: stepped_def appended_def with_system_prompt_def summarize_long)
       (simp add: mixed_turns_def)
  from metadata_refresh [OF mixed_world_load len, of keys_dumps "''user''" "''hi''" "Some [(''cols'', JNum 5)]"]
  obtain w' rest where
    r: "add_message keys_dumps mixed_world ''s1'' ''user'' ''hi'' (Some [(''cols'', JNum 5)]) =
      Inr (w',
        \<lparr>role = ''system'',
         content =
           system_prompt_head @ ''{cols}'' @ system_prompt_tail
           @ NL @ NL
           @ ''Previous coding conversation summary:'' @ NL
           @ concat (replicate 8 (bullet @ '' User asked: early...'' @ NL))
           @ bullet @ '' User asked: sum A...'' @ NL
           @ ''-  Assistant provided code solution'' @ NL
           @ ''-  Assistant explained: use SUM...'' @ NL\<rparr>
        # rest)"
    by (auto simp: keys_dumps_def mixed_turns_def Let_def summary_line_def fence_yes fence_no
        system_prompt_head_def system_prompt_tail_def bullet_def)
  from add_message_returns [OF r] loadable_history [OF mixed_world_load] st
  have "rest = replicate 7 \<lparr>role = ''user'', content = ''late''\<rparr> @ [\<lparr>role = ''user'', content = ''hi''\<rparr>]"
    by simp
  with r show ?thesis by blast
qed


section \<open>Persisting\<close>

text \<open>
  C8, as stated, fails: on a volume that refuses the write, \<open>save_session\<close> returns
  normally, \<open>add_message\<close> returns its two turns, and nothing is stored; no error reaches the
  caller.
\<close>

theorem persist_swallows_failure_counterexample:
  "write_fault readonly_world = Some (OSError ''Read-only file system'')
   \<and> save_session readonly_world ''s1'' [\<lparr>role = ''user'', content = ''hi''\<rparr>] = Inr readonly_world
   \<and> add_message no_dumps readonly_world ''s1'' ''user'' ''hi'' None =
       Inr (readonly_world,
            [\<lparr>role = ''system'', content = create_coding_system_prompt no_dumps None\<rparr>,
             \<lparr>role = ''user'', content = ''hi''\<rparr>])
   \<and> load_session readonly_world ''s1'' = Inr (Turns [])"
  by (simp add: readonly_world_def fresh_world_def add_message_def load_session_def path_exists_def
      save_session_def mkdir_def write_text_def appended_def with_system_prompt_def session_file_def
      name_too_long_def Let_def)

text \<open>
  A write that fails after the file was opened is swallowed in the same way, and it costs the
  session what it held: the file is left truncated and loads as the empty list.
\<close>

lemma truncated_write_loses_session:
  "load_session full_world ''s1'' = Inr (Turns old_turns)
   \<and> save_session full_world ''s1'' [\<lparr>role = ''user'', content = ''hi''\<rparr>] =
       Inr (full_world\<lparr>session_files := [''s1.json'' \<mapsto> Garbled ''truncated'']\<rparr>)
   \<and> load_session (full_world\<lparr>session_files := [''s1.json'' \<mapsto> Garbled ''truncated'']\<rparr>) ''s1''
       = Inr (Turns [])"
  by (simp add: full_world_def long_world_def fresh_world_def load_session_def path_exists_def
      read_json_def save_session_def mkdir_def write_text_def session_file_def name_too_long_def)

text \<open>
  C8, amended. The persist step never raises. \<open>save_session\<close> returns normally whatever
  the volume answers: a missing directory is made, and where the write is taken the file
  then holds the turns; a failure of \<open>mkdir\<close> or of the write is caught and only printed.
  So \<open>add_message\<close>, once it has loaded the turns of the session, returns its turns and
  passes no error of the persist step to the caller.
\<close>

theorem persist_never_raises:
  "(\<exists>w'. save_session w sid ms = Inr w'
        \<and> (writable w \<longrightarrow>
             session_dir_exists w'
             \<and> session_files w' (session_file sid) = Some (Decodes (Turns ms))))
   \<and> (loadable w sid \<longrightarrow>
        (\<exists>w'. add_message dumps w sid r c md = Inr (w', stepped dumps (history w sid) r c md)))"
proof (intro conjI impI)
  show "\<exists>w'. save_session w sid ms = Inr w'
        \<and> (writable w \<longrightarrow>
             session_dir_exists w'
             \<and> session_files w' (session_file sid) = Some (Decodes (Turns ms)))"
  proof (cases "writable w")
    case True
    then show ?thesis by (simp add: save_session_writable)
  next
    case False
    then show ?thesis using save_session_Inr [of w sid ms] by simp
  qed
next
  assume "loadable w sid"
  then show "\<exists>w'. add_message dumps w sid r c md = Inr (w', stepped dumps (history w sid) r c md)"
    by (rule add_message_total)
qed

lemma readonly_world_loadable: "loadable readonly_world ''s1'' \<and> history readonly_world ''s1'' = []"
  by (simp add: readonly_world_def fresh_world_def loadable_def history_def load_session_def
      path_exists_def session_file_def name_too_long_def)

lemma fresh_world_loadable: "loadable fresh_world ''s1'' \<and> history fresh_world ''s1'' = []"
  by (simp add: fresh_world_def loadable_def history_def load_session_def
      path_exists_def session_file_def name_too_long_def)

theorem persist_never_raises_witness:
  "(\<exists>w'. save_session fresh_world ''s1'' [\<lparr>role = ''user'', content = ''hi''\<rparr>] = Inr w'
        \<and> session_dir_exists w'
        \<and> session_files w' ''s1.json'' = Some (Decodes (Turns [\<lparr>role = ''user'', content = ''hi''\<rparr>])))
   \<and> \<not> writable readonly_world
   \<and> (\<exists>w'. add_message no_dumps readonly_world ''s1'' ''user'' ''hi'' None =
         Inr (w', stepped no_dumps [] ''user'' ''hi'' None))"
  using persist_never_raises [of fresh_world "''s1''" "[\<lparr>role = ''user'', content = ''hi''\<rparr>]"
      no_dumps "''user''" "''hi''" None]
    persist_never_raises [of readonly_world "''s1''" "[]" no_dumps "''user''" "''hi''" None]
    readonly_world_loadable
  by (simp add: writable_def fresh_world_def readonly_world_def session_file_def)

section \<open>The system turn\<close>

text \<open>
  C2, as stated, fails: \<open>add_message\<close> takes any role, and an append with the role
  \<open>system\<close> on a fresh session stores two system turns.
\<close>

theorem two_system_turns_counterexample:
  "add_message no_dumps fresh_world ''s1'' ''system'' ''be terse'' None =
     Inr (fresh_world\<lparr>session_dir_exists := True,
            session_files := [''s1.json'' \<mapsto>
              Decodes (Turns [\<lparr>role = ''system'', content = create_coding_system_prompt no_dumps None\<rparr>,
                     \<lparr>role = ''system'', content = ''be terse''\<rparr>])]\<rparr>,
          [\<lparr>role = ''system'', content = create_coding_system_prompt no_dumps None\<rparr>,
           \<lparr>role = ''system'', content = ''be terse''\<rparr>])
   \<and> length (system_msgs [\<lparr>role = ''system'', content = create_coding_system_prompt no_dumps None\<rparr>,
           \<lparr>role = ''system'', content = ''be terse''\<rparr>]) = 2"
  by (simp add: fresh_world_def add_message_def load_session_def path_exists_def save_session_def
      mkdir_def write_text_def appended_def with_system_prompt_def session_file_def system_msgs_def
      name_too_long_def Let_def)

lemma system_msgs_drop: "system_msgs xs = [] \<Longrightarrow> system_msgs (drop k xs) = []"
  by (auto simp: system_msgs_def filter_empty_conv dest: in_set_dropD)

lemma one_system_first_stepped_empty:
  "r \<noteq> ''system'' \<Longrightarrow> one_system_first (stepped dumps [] r c md)"
  by (simp add: stepped_def appended_def with_system_prompt_def one_system_first_def system_msgs_def)

lemma one_system_first_stepped:
  assumes "one_system_first loaded" and "r \<noteq> ''system''"
  shows "one_system_first (stepped dumps loaded r c md)"
proof -
  from assms(1) obtain s rest where l: "loaded = s # rest" and s: "role s = ''system''"
    and rest: "system_msgs rest = []"
    by (auto simp: one_system_first_def split: list.splits)
  let ?new = "\<lparr>role = r, content = c\<rparr>"
  have app: "appended dumps loaded r c md = s # rest @ [?new]"
    by (simp add: l appended_def with_system_prompt_def)
  have tl: "system_msgs (rest @ [?new]) = []"
    using rest assms(2) by (simp add: system_msgs_def)
  show ?thesis
  proof (cases "25 < length (appended dumps loaded r c md)")
    case False
    then show ?thesis using app s tl by (simp add: stepped_def one_system_first_def)
  next
    case True
    then have "length (s # rest @ [?new]) - 8 = Suc (length rest - 7)"
      by (simp add: app)
    then have "drop (length (s # rest @ [?new]) - 8) (s # rest @ [?new]) = drop (length rest - 7) (rest @ [?new])"
      by (simp only: drop_Suc_Cons)
    with True tl show ?thesis
      by (simp add: stepped_def summarize_long app one_system_first_def system_msgs_drop del: drop_append)
  qed
qed

lemma add_messages_invariant:
  assumes "writable w"
      and "loadable w sid"
      and "history w sid = [] \<or> one_system_first (history w sid)"
      and "cs \<noteq> []"
      and "\<forall>call \<in> set cs. fst call \<noteq> ''system''"
  shows "\<exists>w'. add_messages dumps w sid cs = Inr w' \<and> writable w' \<and> loadable w' sid
              \<and> one_system_first (history w' sid)"
  using assms
proof (induction cs arbitrary: w)
  case Nil
  then show ?case by simp
next
  case (Cons a cs)
  obtain r c md where a: "a = (r, c, md)" by (cases a) auto
  with Cons.prems have r: "r \<noteq> ''system''" by auto
  let ?ms = "stepped dumps (history w sid) r c md"
  let ?w1 = "w\<lparr>session_dir_exists := True,
               session_files := (session_files w)(session_file sid \<mapsto> Decodes (Turns ?ms))\<rparr>"
  have step: "add_message dumps w sid r c md = Inr (?w1, ?ms)"
    using Cons.prems(2,1) by (rule add_message_writable)
  have w1: "writable ?w1" using Cons.prems(1) by (rule writable_after_write)
  have h1: "loadable ?w1 sid" "history ?w1 sid = ?ms"
    using loadable_after_write [OF loadable_stat [OF Cons.prems(2)], of ?ms] by simp_all
  have inv: "one_system_first ?ms"
    using Cons.prems(3) r one_system_first_stepped_empty one_system_first_stepped by metis
  show ?case
  proof (cases "cs = []")
    case True
    then show ?thesis using step w1 h1 inv by (simp add: a)
  next
    case False
    have "\<forall>call \<in> set cs. fst call \<noteq> ''system''" using Cons.prems(5) by simp
    from Cons.IH [OF w1 h1(1) _ False this] h1 inv
    show ?thesis using step by (simp add: a)
  qed
qed

text \<open>
  C2, amended. On a fresh session of a volume that takes the writes, after any non-empty
  sequence of \<open>add_message\<close> calls none of which has the role \<open>system\<close>, the stored
  sequence begins with a system turn and has no other. (Every prefix of such a sequence of
  calls is one, so this holds after each call.)
\<close>

theorem system_turn_singularity:
  assumes "load_session w sid = Inr (Turns [])"
      and "writable w"
      and "cs \<noteq> []"
      and "\<forall>call \<in> set cs. fst call \<noteq> ''system''"
  shows "\<exists>w' s rest.
           add_messages dumps w sid cs = Inr w'
           \<and> load_session w' sid = Inr (Turns (s # rest))
           \<and> role s = ''system''
           \<and> system_msgs (s # rest) = [s]"
proof -
  have lh: "loadable w sid" "history w sid = []"
    using loadable_history [OF assms(1)] by simp_all
  from add_messages_invariant [OF assms(2) lh(1) _ assms(3,4), of dumps] lh(2)
  obtain w' where w': "add_messages dumps w sid cs = Inr w'" and l': "loadable w' sid"
    and inv: "one_system_first (history w' sid)"
    by auto
  from inv obtain s rest where h: "history w' sid = s # rest" and s: "role s = ''system''"
    and rest: "system_msgs rest = []"
    by (auto simp: one_system_first_def split: list.splits)
  have "load_session w' sid = Inr (Turns (s # rest))"
    using load_session_loadable [OF l'] h by simp
  moreover have "system_msgs (s # rest) = [s]" using s rest by (simp add: system_msgs_def)
  ultimately show ?thesis using w' s by blast
qed

theorem system_turn_singularity_witness:
  "\<exists>w' s rest.
     add_messages no_dumps fresh_world ''s1'' [(''user'', ''a'', None), (''assistant'', ''b'', None)] = Inr w'
     \<and> load_session w' ''s1'' = Inr (Turns (s # rest))
     \<and> role s = ''system''
     \<and> system_msgs (s # rest) = [s]"
  using system_turn_singularity [of fresh_world "''s1''"
      "[(''user'', ''a'', None), (''assistant'', ''b'', None)]" no_dumps]
  by (simp add: fresh_world_def load_session_def path_exists_def writable_def session_file_def
      name_too_long_def)

section \<open>The inference function, branch by branch\<close>


lemma except_result_fields:
  "map_of (except_result sid mc e) ''session_id'' = Some (JStr sid)
   \<and> map_of (except_result sid mc e) ''error'' = Some (JStr (str_exn e))
   \<and> (\<exists>t. map_of (except_result sid mc e) ''response'' = Some (JStr t) \<and> t \<noteq> [])"
  by (cases e) simp_all



lemma except_not_missing: "except_result sid mc e \<noteq> model_missing_result sid mc"
  by (cases e) (simp_all add: model_missing_result_def)

lemma success_not_missing: "success_result sid resp mc md \<noteq> model_missing_result sid mc"
  by (simp add: success_result_def model_missing_result_def)

lemma inference_model_missing:
  assumes "add_message dumps w sid ''user'' (coding_prompt dumps md p) md = Inr (w1, m1)"
      and "model_files w mc = []"
  shows "coding_llm_inference dumps w sid p md mc = Inr (w1, model_missing_result sid mc)"
proof -
  have "model_files w1 mc = []"
    using add_message_frame [OF assms(1)] assms(2) by (simp add: model_files_def)
  then show ?thesis using assms(1) by (simp add: coding_llm_inference_def)
qed

lemma inference_raised:
  assumes "add_message dumps w sid ''user'' (coding_prompt dumps md p) md = Inr (w1, m1)"
      and "model_files w mc \<noteq> []"
      and "llama_cli w (command (str_paths (model_files w mc)) (context_text m1)) = Raised e"
  shows "coding_llm_inference dumps w sid p md mc =
           Inr (w1\<lparr>calls := calls w @ [command (str_paths (model_files w mc)) (context_text m1)]\<rparr>,
                except_result sid mc e)"
proof -
  note f = add_message_frame [OF assms(1)]
  have mf: "model_files w1 mc = model_files w mc" using f by (simp add: model_files_def)
  have r: "run w1 (command (str_paths (model_files w mc)) (context_text m1)) =
      (w1\<lparr>calls := calls w @ [command (str_paths (model_files w mc)) (context_text m1)]\<rparr>, Raised e)"
    using f assms(3) by (simp add: run_def)
  show ?thesis
    using assms(1,2) r mf by (simp add: coding_llm_inference_def)
qed

lemma inference_completed:
  assumes "add_message dumps w sid ''user'' (coding_prompt dumps md p) md = Inr (w1, m1)"
      and "model_files w mc \<noteq> []"
      and "llama_cli w (command (str_paths (model_files w mc)) (context_text m1)) = Completed out"
      and "add_message dumps
             (w1\<lparr>calls := calls w @ [command (str_paths (model_files w mc)) (context_text m1)]\<rparr>)
             sid ''assistant'' (clean_response out) md = Inr (w3, m3)"
  shows "coding_llm_inference dumps w sid p md mc =
           (case commit_fault w of
              Some e \<Rightarrow> Inr (w3, except_result sid mc e)
            | None \<Rightarrow> Inr (w3\<lparr>commits := Suc (commits w)\<rparr>,
                          success_result sid (clean_response out) mc md))"
proof -
  note f = add_message_frame [OF assms(1)]
  note f3 = add_message_frame [OF assms(4)]
  have mf: "model_files w1 mc = model_files w mc" using f by (simp add: model_files_def)
  have r: "run w1 (command (str_paths (model_files w mc)) (context_text m1)) =
      (w1\<lparr>calls := calls w @ [command (str_paths (model_files w mc)) (context_text m1)]\<rparr>, Completed out)"
    using f assms(3) by (simp add: run_def)
  have c: "commit w3 = (case commit_fault w of Some e \<Rightarrow> Inl e
                        | None \<Rightarrow> Inr (w3\<lparr>commits := Suc (commits w)\<rparr>))"
    using f f3 by (simp add: commit_def split: option.splits)
  show ?thesis
    using assms(1,2,4) r mf c
    by (simp add: coding_llm_inference_def Let_def split: option.splits)
qed

lemma inference_completed_raises:
  assumes "add_message dumps w sid ''user'' (coding_prompt dumps md p) md = Inr (w1, m1)"
      and "model_files w mc \<noteq> []"
      and "llama_cli w (command (str_paths (model_files w mc)) (context_text m1)) = Completed out"
      and "add_message dumps
             (w1\<lparr>calls := calls w @ [command (str_paths (model_files w mc)) (context_text m1)]\<rparr>)
             sid ''assistant'' (clean_response out) md = Inl e"
  shows "coding_llm_inference dumps w sid p md mc =
           Inr (w1\<lparr>calls := calls w @ [command (str_paths (model_files w mc)) (context_text m1)]\<rparr>,
                except_result sid mc e)"
proof -
  note f = add_message_frame [OF assms(1)]
  have mf: "model_files w1 mc = model_files w mc" using f by (simp add: model_files_def)
  have r: "run w1 (command (str_paths (model_files w mc)) (context_text m1)) =
      (w1\<lparr>calls := calls w @ [command (str_paths (model_files w mc)) (context_text m1)]\<rparr>, Completed out)"
    using f assms(3) by (simp add: run_def)
  show ?thesis
    using assms(1,2,4) r mf by (simp add: coding_llm_inference_def Let_def)
qed

lemma appended_last: "last (appended dumps loaded r c md) = \<lparr>role = r, content = c\<rparr>"
  by (simp add: appended_def)

lemma stepped_last: "last (stepped dumps loaded r c md) = \<lparr>role = r, content = c\<rparr>"
proof (cases "25 < length (appended dumps loaded r c md)")
  case False
  then show ?thesis by (simp add: stepped_def appended_last)
next
  case True
  let ?pre = "appended dumps loaded r c md"
  have "drop (length ?pre - 8) ?pre \<noteq> []" using True by simp
  moreover have "last (drop (length ?pre - 8) ?pre) = last ?pre"
    using True by (intro last_drop) simp
  ultimately show ?thesis using True by (simp add: stepped_def summarize_long appended_last)
qed

lemma stepped_keeps_last:
  assumes "loaded \<noteq> []"
  shows "last loaded \<in> set (stepped dumps loaded r c md)"
proof -
  let ?new = "\<lparr>role = r, content = c\<rparr>"
  have app: "appended dumps loaded r c md = loaded @ [?new]"
    using assms by (simp add: appended_def with_system_prompt_def)
  show ?thesis
  proof (cases "25 < length (appended dumps loaded r c md)")
    case False
    then show ?thesis using assms by (simp add: stepped_def app)
  next
    case True
    then have k: "length (loaded @ [?new]) - 8 < length loaded" by (simp add: app)
    then have "drop (length (loaded @ [?new]) - 8) loaded \<noteq> []" by simp
    moreover have "last (drop (length (loaded @ [?new]) - 8) loaded) = last loaded"
      using k by (rule last_drop)
    ultimately have "last loaded \<in> set (drop (length (loaded @ [?new]) - 8) loaded)"
      using last_in_set by metis
    then show ?thesis using True by (simp add: stepped_def app summarize_long)
  qed
qed

lemma path_exists_calls: "path_exists (w\<lparr>calls := x\<rparr>) f = path_exists w f"
  by (simp add: path_exists_def split: option.splits)

lemma read_json_calls: "read_json (w\<lparr>calls := x\<rparr>) f = read_json w f"
  by (simp add: read_json_def)

lemma path_exists_commits: "path_exists (w\<lparr>commits := x\<rparr>) f = path_exists w f"
  by (simp add: path_exists_def split: option.splits)

lemma read_json_commits: "read_json (w\<lparr>commits := x\<rparr>) f = read_json w f"
  by (simp add: read_json_def)

lemma load_session_calls [simp]: "load_session (w\<lparr>calls := x\<rparr>) sid = load_session w sid"
  by (simp only: load_session_def path_exists_calls read_json_calls)

lemma load_session_commits [simp]: "load_session (w\<lparr>commits := x\<rparr>) sid = load_session w sid"
  by (simp only: load_session_def path_exists_commits read_json_commits)

lemma history_calls [simp]: "history (w\<lparr>calls := x\<rparr>) sid = history w sid"
  by (simp add: history_def)

lemma loadable_calls [simp]: "loadable (w\<lparr>calls := x\<rparr>) sid = loadable w sid"
  by (simp add: loadable_def)

lemma history_commits [simp]: "history (w\<lparr>commits := x\<rparr>) sid = history w sid"
  by (simp add: history_def)

lemma loadable_commits [simp]: "loadable (w\<lparr>commits := x\<rparr>) sid = loadable w sid"
  by (simp add: loadable_def)

lemma writable_calls [simp]: "writable (w\<lparr>calls := x\<rparr>) = writable w"
  by (simp add: writable_def)

text \<open>Where the volume takes the writes, what the session holds after a call.\<close>

lemma inference_history:
  assumes "writable w" and "loadable w sid"
  shows "\<exists>w' res.
           coding_llm_inference dumps w sid p md mc = Inr (w', res)
           \<and> loadable w' sid
           \<and> (history w' sid = stepped dumps (history w sid) ''user'' (coding_prompt dumps md p) md
              \<or> (\<exists>resp. history w' sid =
                    stepped dumps (stepped dumps (history w sid) ''user'' (coding_prompt dumps md p) md)
                      ''assistant'' resp md))"
proof -
  let ?m1 = "stepped dumps (history w sid) ''user'' (coding_prompt dumps md p) md"
  let ?w1 = "w\<lparr>session_dir_exists := True,
               session_files := (session_files w)(session_file sid \<mapsto> Decodes (Turns ?m1))\<rparr>"
  let ?cmd = "command (str_paths (model_files w mc)) (context_text ?m1)"
  let ?w2 = "?w1\<lparr>calls := calls w @ [?cmd]\<rparr>"
  have sf: "stat_fault w (session_file sid) = None" using assms(2) by (rule loadable_stat)
  have a1: "add_message dumps w sid ''user'' (coding_prompt dumps md p) md = Inr (?w1, ?m1)"
    using assms(2,1) by (rule add_message_writable)
  have lh1: "loadable ?w1 sid" "history ?w1 sid = ?m1"
    using loadable_after_write [OF sf, of ?m1] by simp_all
  note h1 = lh1(2)
  show ?thesis
  proof (cases "model_files w mc = []")
    case True
    from inference_model_missing [OF a1 True] lh1 show ?thesis by simp
  next
    case False
    show ?thesis
    proof (cases "llama_cli w ?cmd")
      case (Raised e)
      from inference_raised [OF a1 False Raised] lh1 show ?thesis by simp
    next
      case (Completed out)
      let ?m3 = "stepped dumps (history ?w2 sid) ''assistant'' (clean_response out) md"
      let ?w3 = "?w2\<lparr>session_dir_exists := True,
               session_files := (session_files ?w2)(session_file sid \<mapsto> Decodes (Turns ?m3))\<rparr>"
      have w2: "writable ?w2" using assms(1) by (simp add: writable_def)
      have l2: "loadable ?w2 sid" using lh1(1) by simp
      have a3: "add_message dumps ?w2 sid ''assistant'' (clean_response out) md = Inr (?w3, ?m3)"
        using l2 w2 by (rule add_message_writable)
      have lh3: "loadable ?w3 sid" "history ?w3 sid = ?m3"
        using loadable_after_write [OF loadable_stat [OF l2], of ?m3] by simp_all
      have m3: "?m3 = stepped dumps ?m1 ''assistant'' (clean_response out) md"
        using h1 by simp
      from inference_completed [OF a1 False Completed a3]
      have "coding_llm_inference dumps w sid p md mc =
           (case commit_fault w of
              Some e \<Rightarrow> Inr (?w3, except_result sid mc e)
            | None \<Rightarrow> Inr (?w3\<lparr>commits := Suc (commits w)\<rparr>,
                          success_result sid (clean_response out) mc md))" .
      then show ?thesis using lh3 m3
        by (cases "commit_fault w") auto
    qed
  qed
qed


lemma inference_shape:
  assumes "loadable w sid"
  shows "\<exists>w' res.
     coding_llm_inference dumps w sid p md mc = Inr (w', res)
     \<and> (if model_files w mc = [] then res = model_missing_result sid mc \<and> calls w' = calls w
         else (\<exists>ctx. calls w' = calls w @ [command (str_paths (model_files w mc)) ctx])
              \<and> ((\<exists>e. res = except_result sid mc e)
                  \<or> (\<exists>resp. res = success_result sid resp mc md)))"
proof -
  obtain w1 m1 where a1: "add_message dumps w sid ''user'' (coding_prompt dumps md p) md = Inr (w1, m1)"
    using add_message_total [OF assms] by blast
  note f1 = add_message_frame [OF a1]
  let ?cmd = "command (str_paths (model_files w mc)) (context_text m1)"
  show ?thesis
  proof (cases "model_files w mc = []")
    case True
    from inference_model_missing [OF a1 True] f1 True show ?thesis by simp
  next
    case False
    show ?thesis
    proof (cases "llama_cli w ?cmd")
      case (Raised e)
      from inference_raised [OF a1 False Raised] False show ?thesis by auto
    next
      case (Completed out)
      show ?thesis
      proof (cases "add_message dumps (w1\<lparr>calls := calls w @ [?cmd]\<rparr>)
             sid ''assistant'' (clean_response out) md")
        case (Inl e)
        from inference_completed_raises [OF a1 False Completed Inl] False show ?thesis by auto
      next
        case (Inr x)
        obtain w3 m3 where x: "x = (w3, m3)" by (cases x) auto
        have c3: "calls w3 = calls w @ [?cmd]" using add_message_frame [OF Inr [unfolded x]] by simp
        from inference_completed [OF a1 False Completed Inr [unfolded x]] False c3 show ?thesis
          by (cases "commit_fault w") auto
      qed
    qed
  qed
qed

section \<open>The endpoint\<close>

text \<open>
  C4. With an empty prompt \<open>coding_query_endpoint\<close> returns the error
  \<open>No prompt provided\<close> at once and leaves the world as it was: no session file is written,
  no command is run, every session loads as before; a session that loaded as the empty
  sequence still does.
\<close>

theorem empty_prompt_no_side_effect:
  "\<exists>w' res.
     coding_query_endpoint dumps uuid w session_id [] metadata model = Inr (w', res)
     \<and> res = [(''error'', JStr ''No prompt provided'')]
     \<and> w' = w
     \<and> session_files w' = session_files w
     \<and> calls w' = calls w
     \<and> (\<forall>s. load_session w' s = load_session w s)
     \<and> (load_session w (or_uuid uuid session_id) = Inr (Turns [])
          \<longrightarrow> load_session w' (or_uuid uuid session_id) = Inr (Turns []))"
  by (simp add: coding_query_endpoint_def)

theorem empty_prompt_no_side_effect_witness:
  "coding_query_endpoint no_dumps ''u-1'' fresh_world (Some ''s2'') [] None ''phi-3.5-mini''
     = Inr (fresh_world, [(''error'', JStr ''No prompt provided'')])
   \<and> load_session fresh_world ''s2'' = Inr (Turns [])"
  using empty_prompt_no_side_effect [of no_dumps "''u-1''" fresh_world "Some ''s2''" None "''phi-3.5-mini''"]
  by (simp add: or_uuid_def fresh_world_def load_session_def path_exists_def session_file_def
      name_too_long_def)


text \<open>
  The append of the user turn is outside the \<open>try\<close> of \<open>coding_llm_inference\<close>: what
  \<open>load_session\<close> raises there leaves the endpoint as an exception, with no dict at all.
\<close>

lemma endpoint_long_name_raises:
  "coding_query_endpoint no_dumps ''u-1'' fresh_world (Some (replicate 300 (CHR ''a''))) ''hi'' None
     ''phi-3.5-mini'' = Inl (OSError ''File name too long'')"
  by (simp add: coding_query_endpoint_def coding_llm_inference_def add_message_def or_uuid_def
      fresh_world_def load_session_def path_exists_def name_too_long_def session_file_def)




section \<open>Model selection and failures of the engine\<close>

lemma model_dir_unknown:
  "mc \<notin> {''qwen-2.5-coder-14b'', ''deepseek-coder-v2'', ''phi-3.5-mini''} \<Longrightarrow>
     model_dir mc = ''phi-3.5-mini''"
  by (simp add: model_dir_def model_paths_def)

lemma model_dir_phi: "model_dir ''phi-3.5-mini'' = ''phi-3.5-mini''"
  by (simp add: model_dir_def model_paths_def)

text \<open>
  C9. A \<open>model_choice\<close> that is none of the three keys resolves to the directory
  \<open>phi-3.5-mini\<close>, and the request is not rejected for it: once the user turn is appended,
  the model-not-available dict is returned exactly when that directory has no \<open>.gguf\<close> file
  (or does not exist); when it has one, the binary is run on the files found there.
\<close>

theorem unknown_model_falls_back:
  assumes "mc \<notin> {''qwen-2.5-coder-14b'', ''deepseek-coder-v2'', ''phi-3.5-mini''}"
      and "loadable w sid"
  shows "model_dir mc = ''phi-3.5-mini''
         \<and> model_files w mc = model_files w ''phi-3.5-mini''
         \<and> (\<exists>w' res.
               coding_llm_inference dumps w sid p md mc = Inr (w', res)
               \<and> (res = model_missing_result sid mc \<longleftrightarrow> model_files w ''phi-3.5-mini'' = [])
               \<and> (model_files w ''phi-3.5-mini'' \<noteq> [] \<longrightarrow>
                    (\<exists>ctx. calls w' =
                       calls w @ [command (str_paths (model_files w ''phi-3.5-mini'')) ctx])))"
proof -
  have d: "model_dir mc = ''phi-3.5-mini''" using assms(1) by (rule model_dir_unknown)
  have mp: "model_path mc = model_path ''phi-3.5-mini''"
    by (simp add: model_path_def d model_dir_phi)
  have mf: "model_files w mc = model_files w ''phi-3.5-mini''"
    by (simp only: model_files_def mp)
  from inference_shape [OF assms(2), of dumps p md mc]
  obtain w' res where r: "coding_llm_inference dumps w sid p md mc = Inr (w', res)"
    and c: "if model_files w mc = [] then res = model_missing_result sid mc \<and> calls w' = calls w
         else (\<exists>ctx. calls w' = calls w @ [command (str_paths (model_files w mc)) ctx])
              \<and> ((\<exists>e. res = except_result sid mc e)
                  \<or> (\<exists>resp. res = success_result sid resp mc md))"
    by blast
  have n1: "model_missing_result sid mc \<noteq> except_result sid mc x" for x
    using except_not_missing [of sid mc x] by simp
  have n2: "model_missing_result sid mc \<noteq> success_result sid x mc md" for x
    using success_not_missing [of sid x mc md] by simp
  have "res = model_missing_result sid mc \<longleftrightarrow> model_files w mc = []"
    using c n1 n2 by (auto split: if_splits)
  moreover have "model_files w mc \<noteq> [] \<longrightarrow>
      (\<exists>ctx. calls w' = calls w @ [command (str_paths (model_files w mc)) ctx])"
    using c by (auto split: if_splits)
  ultimately show ?thesis using d mf r by simp
qed

lemma phi_world_files:
  "model_files phi_world ''phi-3.5-mini'' = [''/root/.cache/models/phi-3.5-mini/phi.Q4_K_M.gguf'']"
  by (simp add: model_files_def model_path_def model_dir_phi cache_dir_def phi_world_def
      fresh_world_def suffix_to_prefix)

lemma phi_world_loadable: "loadable phi_world ''s1'' \<and> history phi_world ''s1'' = []"
  by (simp add: phi_world_def fresh_world_def loadable_def history_def load_session_def
      path_exists_def session_file_def name_too_long_def)

theorem unknown_model_falls_back_witness:
  "model_dir ''gpt-x'' = ''phi-3.5-mini''
   \<and> (\<exists>w' res.
         coding_llm_inference no_dumps phi_world ''s1'' ''hi'' None ''gpt-x'' = Inr (w', res)
         \<and> res \<noteq> model_missing_result ''s1'' ''gpt-x''
         \<and> (\<exists>ctx. calls w' = calls phi_world @
               [command (str_paths [''/root/.cache/models/phi-3.5-mini/phi.Q4_K_M.gguf'']) ctx]))"
  using unknown_model_falls_back [of "''gpt-x''" phi_world "''s1''" no_dumps "''hi''" None]
    phi_world_loadable
  by (simp add: phi_world_files)

text \<open>
  C3. When the user turn was stored (the session could be loaded and the volume takes the
  write), a model file was found, and the run of the binary raises (a non-zero exit, a
  timeout, or anything else), then the session holds what the append of the user turn
  stored, the user turn last and no assistant turn behind it, and the returned dict has the
  field \<open>error\<close> with the text of the exception and a \<open>response\<close> that is not empty.
\<close>

theorem engine_failure_keeps_user_turn:
  assumes "writable w"
      and "loadable w sid"
      and "model_files w mc \<noteq> []"
      and "llama_cli w (command (str_paths (model_files w mc))
             (context_text (stepped dumps (history w sid) ''user'' (coding_prompt dumps md p) md)))
           = Raised e"
  shows "\<exists>w' res t.
           coding_llm_inference dumps w sid p md mc = Inr (w', res)
           \<and> load_session w' sid =
               Inr (Turns (stepped dumps (history w sid) ''user'' (coding_prompt dumps md p) md))
           \<and> last (stepped dumps (history w sid) ''user'' (coding_prompt dumps md p) md) =
               \<lparr>role = ''user'', content = coding_prompt dumps md p\<rparr>
           \<and> map_of res ''error'' = Some (JStr (str_exn e))
           \<and> map_of res ''response'' = Some (JStr t) \<and> t \<noteq> []"
proof -
  let ?m1 = "stepped dumps (history w sid) ''user'' (coding_prompt dumps md p) md"
  let ?w1 = "w\<lparr>session_dir_exists := True,
               session_files := (session_files w)(session_file sid \<mapsto> Decodes (Turns ?m1))\<rparr>"
  let ?cmd = "command (str_paths (model_files w mc)) (context_text ?m1)"
  have a1: "add_message dumps w sid ''user'' (coding_prompt dumps md p) md = Inr (?w1, ?m1)"
    using assms(2,1) by (rule add_message_writable)
  have r: "coding_llm_inference dumps w sid p md mc =
      Inr (?w1\<lparr>calls := calls w @ [?cmd]\<rparr>, except_result sid mc e)"
    using a1 assms(3,4) by (rule inference_raised)
  have l: "load_session (?w1\<lparr>calls := calls w @ [?cmd]\<rparr>) sid = Inr (Turns ?m1)"
    using load_after_write [OF loadable_stat [OF assms(2)], of ?m1] by simp
  from except_result_fields [of sid mc e] obtain t where
    t: "map_of (except_result sid mc e) ''response'' = Some (JStr t)" "t \<noteq> []"
    and er: "map_of (except_result sid mc e) ''error'' = Some (JStr (str_exn e))"
    by blast
  show ?thesis using r l t er stepped_last [of dumps "history w sid" "''user''" "coding_prompt dumps md p" md]
    by blast
qed

lemma phi_world_writable: "writable phi_world"
  by (simp add: phi_world_def fresh_world_def writable_def)

theorem engine_failure_keeps_user_turn_witness:
  "\<exists>w' res t.
     coding_llm_inference no_dumps phi_world ''s1'' ''hi'' None ''phi-3.5-mini'' = Inr (w', res)
     \<and> load_session w' ''s1'' =
         Inr (Turns [\<lparr>role = ''system'', content = create_coding_system_prompt no_dumps None\<rparr>,
                     \<lparr>role = ''user'', content = coding_prompt no_dumps None ''hi''\<rparr>])
     \<and> map_of res ''error'' = Some (JStr ''timed out after 300 seconds'')
     \<and> map_of res ''response'' = Some (JStr t) \<and> t \<noteq> []"
proof -
  have s: "stepped no_dumps [] ''user'' (coding_prompt no_dumps None ''hi'') None =
      [\<lparr>role = ''system'', content = create_coding_system_prompt no_dumps None\<rparr>,
       \<lparr>role = ''user'', content = coding_prompt no_dumps None ''hi''\<rparr>]"
    by (simp add: stepped_def appended_def with_system_prompt_def)
  have e: "llama_cli phi_world c = Raised (TimeoutExpired ''timed out after 300 seconds'')" for c
    by (simp add: phi_world_def fresh_world_def)
  show ?thesis
    using engine_failure_keeps_user_turn [of phi_world "''s1''" "''phi-3.5-mini''" no_dumps None "''hi''"
        "TimeoutExpired ''timed out after 300 seconds''"]
    by (simp add: phi_world_writable phi_world_files phi_world_loadable s e)
qed

section \<open>The stored user turn\<close>

lemma coding_prompt_split:
  "coding_prompt dumps md p =
     (NL @ ''Spreadsheet Context: '' @ dumps_or dumps md ''No spreadsheet loaded'' @ NL @ NL
        @ ''User Request: '') @ p @ solution_request"
  by (simp add: coding_prompt_def)

lemma coding_prompt_longer: "length p < length (coding_prompt dumps md p)"
  by (simp add: coding_prompt_def)

lemma coding_prompt_sublist: "sublist p (coding_prompt dumps md p)"
  unfolding coding_prompt_split by (rule sublist_appendI)

text \<open>
  C10. For a request with a non-empty prompt \<open>p\<close> and metadata \<open>m\<close>, on a session that
  can be loaded and a volume that takes the writes, the session afterwards holds a user turn whose content is not \<open>p\<close> but
  the wrapper: \<open>Spreadsheet Context:\<close> with the JSON text of \<open>m\<close> (or
  \<open>No spreadsheet loaded\<close> when \<open>m\<close> is absent or empty), then \<open>User Request:\<close> with
  \<open>p\<close>, then the fixed request for a practical solution; \<open>p\<close> occurs in it as a
  contiguous part only.
\<close>

theorem stored_user_turn_is_wrapped:
  assumes "p \<noteq> []" and "writable w" and "loadable w (or_uuid uuid sid)"
  shows "\<exists>w' res ms.
           coding_query_endpoint dumps uuid w sid p md model = Inr (w', res)
           \<and> load_session w' (or_uuid uuid sid) = Inr (Turns ms)
           \<and> \<lparr>role = ''user'', content = coding_prompt dumps (Some (or_empty md)) p\<rparr> \<in> set ms
           \<and> coding_prompt dumps (Some (or_empty md)) p \<noteq> p
           \<and> sublist p (coding_prompt dumps (Some (or_empty md)) p)
           \<and> coding_prompt dumps (Some (or_empty md)) p =
               NL @ ''Spreadsheet Context: ''
               @ (if md = None \<or> md = Some [] then ''No spreadsheet loaded'' else dumps (or_empty md))
               @ NL @ NL @ ''User Request: '' @ p @ solution_request"
proof -
  let ?sid = "or_uuid uuid sid"
  let ?md = "Some (or_empty md)"
  let ?cp = "coding_prompt dumps ?md p"
  let ?u = "\<lparr>role = ''user'', content = ?cp\<rparr>"
  let ?m1 = "stepped dumps (history w ?sid) ''user'' ?cp ?md"
  have e: "coding_query_endpoint dumps uuid w sid p md model =
      coding_llm_inference dumps w ?sid p ?md model"
    using assms(1) by (simp add: coding_query_endpoint_def)
  have l1: "last ?m1 = ?u" by (rule stepped_last)
  have ne: "?m1 \<noteq> []"
    by (simp add: stepped_def summarize_long appended_def)
  have in1: "?u \<in> set ?m1" using l1 ne last_in_set by metis
  have in3: "?u \<in> set (stepped dumps ?m1 ''assistant'' resp ?md)" for resp
    using stepped_keeps_last [OF ne, of dumps "''assistant''" resp ?md] l1 by simp
  from inference_history [OF assms(2,3), of dumps p ?md model]
  obtain w' res where r: "coding_llm_inference dumps w ?sid p ?md model = Inr (w', res)"
    and l': "loadable w' ?sid"
    and h: "history w' ?sid = ?m1
            \<or> (\<exists>resp. history w' ?sid = stepped dumps ?m1 ''assistant'' resp ?md)"
    by blast
  have mem: "?u \<in> set (history w' ?sid)" using h in1 in3 by auto
  have neq: "?cp \<noteq> p" using coding_prompt_longer [of p dumps ?md] by auto
  have shape: "?cp = NL @ ''Spreadsheet Context: ''
               @ (if md = None \<or> md = Some [] then ''No spreadsheet loaded'' else dumps (or_empty md))
               @ NL @ NL @ ''User Request: '' @ p @ solution_request"
    by (cases md) (auto simp: coding_prompt_def dumps_or_def or_empty_def)
  show ?thesis
  proof (intro exI [of _ w'] exI [of _ res] exI [of _ "history w' ?sid"] conjI)
    show "coding_query_endpoint dumps uuid w sid p md model = Inr (w', res)"
      using e r by simp
    show "load_session w' ?sid = Inr (Turns (history w' ?sid))"
      using l' by (rule load_session_loadable)
    show "?u \<in> set (history w' ?sid)" by (rule mem)
    show "?cp \<noteq> p" by (rule neq)
    show "sublist p ?cp" by (rule coding_prompt_sublist)
    show "?cp = NL @ ''Spreadsheet Context: ''
               @ (if md = None \<or> md = Some [] then ''No spreadsheet loaded'' else dumps (or_empty md))
               @ NL @ NL @ ''User Request: '' @ p @ solution_request" by (rule shape)
  qed
qed

theorem stored_user_turn_is_wrapped_witness:
  "\<exists>w' res ms.
     coding_query_endpoint no_dumps ''u-1'' fresh_world (Some ''s1'') ''Sum column A'' None ''phi-3.5-mini''
       = Inr (w', res)
     \<and> load_session w' ''s1'' = Inr (Turns ms)
     \<and> \<lparr>role = ''user'', content = coding_prompt no_dumps (Some []) ''Sum column A''\<rparr> \<in> set ms
     \<and> coding_prompt no_dumps (Some []) ''Sum column A'' \<noteq> ''Sum column A''
     \<and> coding_prompt no_dumps (Some []) ''Sum column A'' =
         NL @ ''Spreadsheet Context: No spreadsheet loaded'' @ NL @ NL
         @ ''User Request: Sum column A'' @ solution_request"
proof -
  have w: "writable fresh_world" by (simp add: writable_def fresh_world_def)
  have ne: "''Sum column A'' \<noteq> []" by simp
  have u: "or_uuid ''u-1'' (Some ''s1'') = ''s1''" by (simp add: or_uuid_def)
  have m: "or_empty None = []" by (simp add: or_empty_def)
  have l: "loadable fresh_world (or_uuid ''u-1'' (Some ''s1''))"
    using fresh_world_loadable by (simp add: u)
  from stored_user_turn_is_wrapped [OF ne w l, of no_dumps None "''phi-3.5-mini''"]
  obtain w' res ms where
    1: "coding_query_endpoint no_dumps ''u-1'' fresh_world (Some ''s1'') ''Sum column A'' None ''phi-3.5-mini''
       = Inr (w', res)"
    and 2: "load_session w' ''s1'' = Inr (Turns ms)"
    and 3: "\<lparr>role = ''user'', content = coding_prompt no_dumps (Some []) ''Sum column A''\<rparr> \<in> set ms"
    and 4: "coding_prompt no_dumps (Some []) ''Sum column A'' \<noteq> ''Sum column A''"
    and 5: "coding_prompt no_dumps (Some []) ''Sum column A'' =
         NL @ ''Spreadsheet Context: '' @ ''No spreadsheet loaded'' @ NL @ NL
         @ ''User Request: '' @ ''Sum column A'' @ solution_request"
    unfolding u m by (elim exE conjE) simp
  from 5 have 6: "coding_prompt no_dumps (Some []) ''Sum column A'' =
         NL @ ''Spreadsheet Context: No spreadsheet loaded'' @ NL @ NL
         @ ''User Request: Sum column A'' @ solution_request" by simp
  from 1 2 3 4 6 show ?thesis by blast
qed

end
